theory Spec2Isabelle
  imports Complex_Main
begin

section \<open>Post-processing of a NEMD run: \<open>example/plot_nemd.py\<close>\<close>

text \<open>
  The script is a straight line of numpy reductions over the arrays returned by the
  loaders \<open>load_compute\<close> and \<open>load_shc\<close>, followed by text writers. The loaders are
  external; their results are the inputs of the model.

  Numbers. A float64 is modelled by its exact value: rounding, overflow and the sign of
  zero are not modelled. The values that numpy produces instead of raising (a division
  by zero, the mean of an empty slice) are modelled: \<open>NaN\<close>, \<open>PInf\<close>, \<open>NInf\<close>, with the
  IEEE rules for them. The entries of the loaded arrays are finite, hence \<open>real\<close>.
\<close>

subsection \<open>float64 values\<close>

datatype f64 = Fin real | PInf | NInf | NaN

fun fneg :: "f64 \<Rightarrow> f64" where
  "fneg (Fin x) = Fin (- x)"
| "fneg PInf = NInf"
| "fneg NInf = PInf"
| "fneg NaN = NaN"

fun fadd :: "f64 \<Rightarrow> f64 \<Rightarrow> f64" where
  "fadd (Fin x) (Fin y) = Fin (x + y)"
| "fadd NaN _ = NaN"
| "fadd _ NaN = NaN"
| "fadd PInf NInf = NaN"
| "fadd NInf PInf = NaN"
| "fadd PInf _ = PInf"
| "fadd _ PInf = PInf"
| "fadd NInf _ = NInf"
| "fadd _ NInf = NInf"

definition fsub :: "f64 \<Rightarrow> f64 \<Rightarrow> f64" where
  "fsub a b = fadd a (fneg b)"

text \<open>The infinity of the sign of \<open>s\<close>; zero counts as positive.\<close>

definition inf_of :: "real \<Rightarrow> f64" where
  "inf_of s = (if 0 \<le> s then PInf else NInf)"

fun fmul :: "f64 \<Rightarrow> f64 \<Rightarrow> f64" where
  "fmul (Fin x) (Fin y) = Fin (x * y)"
| "fmul NaN _ = NaN"
| "fmul _ NaN = NaN"
| "fmul (Fin x) PInf = (if x = 0 then NaN else inf_of x)"
| "fmul (Fin x) NInf = (if x = 0 then NaN else inf_of (- x))"
| "fmul PInf (Fin y) = (if y = 0 then NaN else inf_of y)"
| "fmul NInf (Fin y) = (if y = 0 then NaN else inf_of (- y))"
| "fmul PInf PInf = PInf"
| "fmul NInf NInf = PInf"
| "fmul PInf NInf = NInf"
| "fmul NInf PInf = NInf"

text \<open>
  numpy's true division of float64 values never raises: \<open>x / 0\<close> is an infinity of the
  sign of \<open>x\<close>, and \<open>0 / 0\<close> is \<open>nan\<close> (with a RuntimeWarning only).
\<close>

fun fdiv :: "f64 \<Rightarrow> f64 \<Rightarrow> f64" where
  "fdiv (Fin x) (Fin y) = (if y = 0 then (if x = 0 then NaN else inf_of x) else Fin (x / y))"
| "fdiv NaN _ = NaN"
| "fdiv _ NaN = NaN"
| "fdiv (Fin x) PInf = Fin 0"
| "fdiv (Fin x) NInf = Fin 0"
| "fdiv PInf (Fin y) = inf_of y"
| "fdiv NInf (Fin y) = inf_of (- y)"
| "fdiv PInf PInf = NaN"
| "fdiv PInf NInf = NaN"
| "fdiv NInf PInf = NaN"
| "fdiv NInf NInf = NaN"

text \<open>
  \<open>mean\<close> of pylab (numpy): the sum of the elements (\<open>add.reduce\<close>, from 0) divided by
  their number. Over no element that is \<open>0 / 0\<close>.
\<close>

definition mean :: "f64 list \<Rightarrow> f64" where
  "mean xs = fdiv (foldl fadd (Fin 0) xs) (Fin (real (length xs)))"

subsection \<open>Errors and indexing\<close>

datatype error = IndexError | ValueError

text \<open>\<open>xs[i]\<close> of Python and numpy: a negative index counts from the end.\<close>

definition getitem :: "'a list \<Rightarrow> int \<Rightarrow> error + 'a" where
  "getitem xs i =
     (if 0 \<le> i \<and> i < int (length xs) then Inr (xs ! nat i)
      else if i < 0 \<and> - int (length xs) \<le> i then Inr (xs ! nat (int (length xs) + i))
      else Inl IndexError)"

subsection \<open>Two-dimensional arrays\<close>

text \<open>
  An array of shape \<open>(length rows, ncols)\<close>. The number of columns is a field of its
  own, since an array may have no row and still have columns.
\<close>

record ndarray2 =
  rows :: "real list list"
  ncols :: nat

definition shape0 :: "ndarray2 \<Rightarrow> nat" where
  "shape0 T = length (rows T)"

definition wf_ndarray2 :: "ndarray2 \<Rightarrow> bool" where
  "wf_ndarray2 T \<longleftrightarrow> list_all (\<lambda>r. length r = ncols T) (rows T)"

text \<open>The slice \<open>T[a:, b:]\<close>; a bound beyond the shape gives an empty axis.\<close>

definition slice_from :: "ndarray2 \<Rightarrow> nat \<Rightarrow> nat \<Rightarrow> ndarray2" where
  "slice_from T a b = \<lparr>rows = map (drop b) (drop a (rows T)), ncols = ncols T - b\<rparr>"

text \<open>\<open>mean(T, axis=0)\<close>: one mean per column, over the rows.\<close>

definition mean_axis0 :: "ndarray2 \<Rightarrow> f64 list" where
  "mean_axis0 T = map (\<lambda>j. mean (map (\<lambda>r. Fin (r ! j)) (rows T))) [0..<ncols T]"

subsection \<open>Reduction step\<close>

text \<open>
  \<^verbatim>\<open>ndata=T.shape[0]\<close>, \<^verbatim>\<open>temp_ave=mean(T[int(ndata/2)+1:,1:],axis=0)\<close>.
  \<open>int(ndata/2)\<close> of a natural number is \<open>ndata div 2\<close>.
\<close>

definition temp_ave :: "ndarray2 \<Rightarrow> f64 list" where
  "temp_ave T = mean_axis0 (slice_from T (shape0 T div 2 + 1) 1)"

text \<open>
  The steady-state window in the words of the specification, for comparison: the second
  half of the time-step axis, that is the last \<open>ndata div 2\<close> rows (rows 2 and 3 of 4).
\<close>

definition spec_second_half_mean :: "ndarray2 \<Rightarrow> f64 list" where
  "spec_second_half_mean T = mean_axis0 (slice_from T (shape0 T - shape0 T div 2) 1)"

subsection \<open>Heat flux\<close>

definition dt :: real where
  "dt = 1 / 1000"

definition Ns :: real where
  "Ns = 1000"

record flux =
  Q1 :: f64
  Q2 :: f64
  Q :: f64

text \<open>
  \<^verbatim>\<open>Q1=(Ein[int(ndata/2)]-Ein[-1])/(ndata/2)/dt/Ns\<close>,
  \<^verbatim>\<open>Q2=(Eout[-1]-Eout[int(ndata/2)])/(ndata/2)/dt/Ns\<close>,
  \<^verbatim>\<open>Q=mean([Q1,Q1])\<close>.
  The time-step duration and the sampling interval are arguments here; the script runs
  with \<open>dt\<close> and \<open>Ns\<close>. \<open>ndata/2\<close> is a true division. \<open>Q2\<close> is computed, so its
  reads of \<open>Eout\<close> can raise, although \<open>Q\<close> does not use it.
\<close>

definition heat_flux :: "real \<Rightarrow> real \<Rightarrow> nat \<Rightarrow> real list \<Rightarrow> real list \<Rightarrow> error + flux" where
  "heat_flux tstep interval ndata Ein Eout =
     (case getitem Ein (int (ndata div 2)) of Inl e \<Rightarrow> Inl e | Inr ein_mid \<Rightarrow>
      case getitem Ein (- 1) of Inl e \<Rightarrow> Inl e | Inr ein_end \<Rightarrow>
      case getitem Eout (- 1) of Inl e \<Rightarrow> Inl e | Inr eout_end \<Rightarrow>
      case getitem Eout (int (ndata div 2)) of Inl e \<Rightarrow> Inl e | Inr eout_mid \<Rightarrow>
        (let q1 = fdiv (fdiv (fdiv (fsub (Fin ein_mid) (Fin ein_end))
                    (Fin (real ndata / 2))) (Fin tstep)) (Fin interval);
             q2 = fdiv (fdiv (fdiv (fsub (Fin eout_end) (Fin eout_mid))
                    (Fin (real ndata / 2))) (Fin tstep)) (Fin interval)
         in Inr \<lparr>Q1 = q1, Q2 = q2, Q = mean [q1, q1]\<rparr>))"

subsection \<open>Thermal conductance\<close>

text \<open>\<^verbatim>\<open>deltaT=temp_ave[0]-temp_ave[-1]\<close>\<close>

definition deltaT :: "f64 list \<Rightarrow> error + f64" where
  "deltaT ta =
     (case getitem ta 0 of Inl e \<Rightarrow> Inl e | Inr first \<Rightarrow>
      case getitem ta (- 1) of Inl e \<Rightarrow> Inl e | Inr final \<Rightarrow> Inr (fsub first final))"

text \<open>The cell lengths \<^verbatim>\<open>l=[41.948415859093096,41.948415859093096,41.948415859093096]\<close>.\<close>

definition l :: "real list" where
  "l = [41948415859093096 / 10 ^ 15, 41948415859093096 / 10 ^ 15, 41948415859093096 / 10 ^ 15]"

definition A :: real where
  "A = l ! 0 * l ! 1"

definition Vall :: real where
  "Vall = A * l ! 2"

text \<open>
  \<^verbatim>\<open>G=1.6*10**5*Q/deltaT/A\<close>, left to right, with the area as an argument;
  the script's \<open>G\<close> is at the area \<open>A\<close>.
\<close>

definition conductance :: "f64 \<Rightarrow> f64 \<Rightarrow> real \<Rightarrow> f64" where
  "conductance q d area = fdiv (fdiv (fmul (Fin (16 / 10 * 10 ^ 5)) q) d) (Fin area)"

definition G :: "f64 \<Rightarrow> f64 \<Rightarrow> f64" where
  "G q d = conductance q d A"

text \<open>Lines 48 to 57 from the temperature profile and the flux.\<close>

definition thermal_conductance :: "f64 list \<Rightarrow> f64 \<Rightarrow> error + f64" where
  "thermal_conductance ta q = (case deltaT ta of Inl e \<Rightarrow> Inl e | Inr d \<Rightarrow> Inr (G q d))"

subsection \<open>Spectral step\<close>

text \<open>The entries of \<open>load_shc(250,1000)['run0']\<close> that the script reads.\<close>

record shc =
  jwi :: "real list"
  jwo :: "real list"
  Ki :: "real list"
  Ko :: "real list"
  shc_t :: "real list"
  shc_nu :: "real list"

text \<open>
  \<open>+\<close> of two one-dimensional numpy arrays: elementwise on equal lengths; an array of
  length 1 is broadcast over the other; any other pair of lengths raises ValueError.
\<close>

definition np_add :: "real list \<Rightarrow> real list \<Rightarrow> error + real list" where
  "np_add xs ys =
     (if length xs = length ys then Inr (map2 (+) xs ys)
      else if length xs = 1 then Inr (map (\<lambda>y. hd xs + y) ys)
      else if length ys = 1 then Inr (map (\<lambda>x. x + hd ys) xs)
      else Inl ValueError)"

text \<open>\<^verbatim>\<open>Lx=l[0]\<close>, \<^verbatim>\<open>Ly=4.1948415859093096\<close>, \<^verbatim>\<open>Lz=l[2]\<close>, \<^verbatim>\<open>V=Lx*Ly*Lz\<close>\<close>

definition Lx :: real where
  "Lx = l ! 0"

definition Ly :: real where
  "Ly = 41948415859093096 / 10 ^ 16"

definition Lz :: real where
  "Lz = l ! 2"

definition V :: real where
  "V = Lx * Ly * Lz"

text \<open>\<^verbatim>\<open>Gc=1.6*10**4*(shc['jwi']+shc['jwo'])/V/deltaT\<close>\<close>

definition Gc :: "f64 \<Rightarrow> shc \<Rightarrow> error + f64 list" where
  "Gc d s =
     (case np_add (jwi s) (jwo s) of Inl e \<Rightarrow> Inl e
      | Inr js \<Rightarrow> Inr (map (\<lambda>x. fdiv (fdiv (fmul (Fin (16 / 10 * 10 ^ 4)) (Fin x)) (Fin V)) d) js))"

text \<open>\<^verbatim>\<open>corr_time=(shc['Ki']+shc['Ko'])/Ly\<close>\<close>

definition corr_time :: "shc \<Rightarrow> error + f64 list" where
  "corr_time s =
     (case np_add (Ki s) (Ko s) of Inl e \<Rightarrow> Inl e
      | Inr ks \<Rightarrow> Inr (map (\<lambda>x. fdiv (Fin x) (Fin Ly)) ks))"

subsection \<open>Output writers\<close>

text \<open>
  A file is the string written so far. A writer returns it with the error that stopped
  the loop, if any: the \<open>with\<close> block closes the file on the way out, so what was
  written before the error stays. \<open>"{}".format(x)\<close> of a float64 is Python's shortest
  round-trip text; it is the argument \<open>fmt\<close>. Of an integer it is the decimal numeral.
\<close>

definition newline :: char where
  "newline = CHR 0x0A"

function str_nat :: "nat \<Rightarrow> string" where
  "str_nat n =
     (if n < 10 then [''0123456789'' ! n]
      else str_nat (n div 10) @ [''0123456789'' ! (n mod 10)])"
  by pat_completeness auto
termination
  by (relation "measure id") auto

declare str_nat.simps [simp del]

text \<open>\<^verbatim>\<open>group_idx=range(1,10)\<close>\<close>

definition group_idx :: "nat list" where
  "group_idx = [1..<10]"

text \<open>
  \<^verbatim>\<open>
  for i in range(len(group_idx)):
      file.writelines("{} {}".format(group_idx[i],temp_ave[i]))
      file.writelines("\n")
  \<close>
\<close>

fun temp_rows :: "(f64 \<Rightarrow> string) \<Rightarrow> nat list \<Rightarrow> f64 list \<Rightarrow> nat list \<Rightarrow> string \<Rightarrow> string \<times> error option" where
  "temp_rows fmt gi ta [] out = (out, None)"
| "temp_rows fmt gi ta (i # rest) out =
     (case getitem gi (int i) of Inl e \<Rightarrow> (out, Some e) | Inr g \<Rightarrow>
      case getitem ta (int i) of Inl e \<Rightarrow> (out, Some e) | Inr v \<Rightarrow>
        temp_rows fmt gi ta rest (out @ (str_nat g @ '' '' @ fmt v) @ [newline]))"

definition TempProfile_writer :: "(f64 \<Rightarrow> string) \<Rightarrow> f64 list \<Rightarrow> string \<times> error option" where
  "TempProfile_writer fmt ta = temp_rows fmt group_idx ta [0..<length group_idx] []"

text \<open>\<^verbatim>\<open>t=dt*np.arange(1,ndata+1)*Ns/1000\<close>\<close>

definition t_axis :: "nat \<Rightarrow> real list" where
  "t_axis ndata = map (\<lambda>i. dt * real i * Ns / 1000) [1..<ndata + 1]"

text \<open>
  \<^verbatim>\<open>
  file.writelines("t(ps)  Energy-in(Ein)  Energy-out(Eout)")
  for i in range(len(t)):
      file.writelines("{} {} {}".format(t[i],Ein[i],Eout[i]))
      file.writelines("\n")
  \<close>
\<close>

fun energy_rows :: "(f64 \<Rightarrow> string) \<Rightarrow> real list \<Rightarrow> real list \<Rightarrow> real list \<Rightarrow> nat list \<Rightarrow> string \<Rightarrow> string \<times> error option" where
  "energy_rows fmt ts Ein Eout [] out = (out, None)"
| "energy_rows fmt ts Ein Eout (i # rest) out =
     (case getitem ts (int i) of Inl e \<Rightarrow> (out, Some e) | Inr ti \<Rightarrow>
      case getitem Ein (int i) of Inl e \<Rightarrow> (out, Some e) | Inr ein \<Rightarrow>
      case getitem Eout (int i) of Inl e \<Rightarrow> (out, Some e) | Inr eout \<Rightarrow>
        energy_rows fmt ts Ein Eout rest
          (out @ (fmt (Fin ti) @ '' '' @ fmt (Fin ein) @ '' '' @ fmt (Fin eout)) @ [newline]))"

definition EnergyAccumulation_writer :: "(f64 \<Rightarrow> string) \<Rightarrow> nat \<Rightarrow> real list \<Rightarrow> real list \<Rightarrow> string \<times> error option" where
  "EnergyAccumulation_writer fmt ndata Ein Eout =
     energy_rows fmt (t_axis ndata) Ein Eout [0..<length (t_axis ndata)]
       ''t(ps)  Energy-in(Ein)  Energy-out(Eout)''"

section \<open>Properties\<close>

lemma foldl_fadd_Fin: "foldl fadd (Fin a) (map Fin xs) = Fin (a + sum_list xs)"
  by (induction xs arbitrary: a) (simp_all add: add.assoc)

lemma mean_Fin_nonempty:
  "xs \<noteq> [] \<Longrightarrow> mean (map Fin xs) = Fin (sum_list xs / real (length xs))"
  by (simp add: mean_def foldl_fadd_Fin)

lemma mean_Nil: "mean [] = NaN"
  by (simp add: mean_def)

lemma sum_list_map_drop:
  "sum_list (map f (drop m xs)) = (\<Sum>i = m..<length xs. f (xs ! i))"
proof -
  have "drop m xs = map ((!) xs) [m..<length xs]"
    by (metis add_0 drop_map drop_upt map_nth)
  then have "sum_list (map f (drop m xs)) = sum_list (map (\<lambda>i. f (xs ! i)) [m..<length xs])"
    by (simp add: comp_def)
  then show ?thesis
    by (simp add: interv_sum_list_conv_sum_set_nat)
qed

lemma temp_ave_length: "length (temp_ave T) = ncols T - 1"
  by (simp add: temp_ave_def mean_axis0_def slice_from_def)

lemma temp_ave_nth:
  assumes wf: "wf_ndarray2 T" and n: "2 < shape0 T" and j: "j < ncols T - 1"
  shows "temp_ave T ! j =
    Fin ((\<Sum>i = shape0 T div 2 + 1..<shape0 T. rows T ! i ! (j + 1)) /
         real (shape0 T - (shape0 T div 2 + 1)))"
proof -
  let ?m = "shape0 T div 2 + 1"
  let ?rs = "drop ?m (rows T)"
  have len: "\<And>r. r \<in> set (rows T) \<Longrightarrow> length r = ncols T"
    using wf by (simp add: wf_ndarray2_def list_all_iff)
  have ne: "?rs \<noteq> []"
    using n by (simp add: shape0_def)
  have col: "map (\<lambda>r. Fin (r ! j)) (map (drop 1) ?rs) = map Fin (map (\<lambda>r. r ! (j + 1)) ?rs)"
  proof -
    have "\<And>r. r \<in> set ?rs \<Longrightarrow> drop 1 r ! j = r ! (j + 1)"
    proof -
      fix r assume "r \<in> set ?rs"
      then have "r \<in> set (rows T)" by (rule in_set_dropD)
      then have "length r = ncols T" by (rule len)
      with j show "drop 1 r ! j = r ! (j + 1)" by simp
    qed
    then show ?thesis by simp
  qed
  have "temp_ave T ! j = mean (map (\<lambda>r. Fin (r ! j)) (map (drop 1) ?rs))"
    using j by (simp add: temp_ave_def mean_axis0_def slice_from_def)
  also have "\<dots> = mean (map Fin (map (\<lambda>r. r ! (j + 1)) ?rs))"
    by (simp only: col)
  also have "\<dots> = Fin (sum_list (map (\<lambda>r. r ! (j + 1)) ?rs) /
                        real (length (map (\<lambda>r. r ! (j + 1)) ?rs)))"
    using ne by (intro mean_Fin_nonempty) simp
  also have "length (map (\<lambda>r. r ! (j + 1)) ?rs) = length ?rs"
    by (rule length_map)
  also have "sum_list (map (\<lambda>r. r ! (j + 1)) ?rs) = (\<Sum>i = ?m..<shape0 T. rows T ! i ! (j + 1))"
    by (simp only: sum_list_map_drop shape0_def)
  also have "length ?rs = shape0 T - ?m"
    by (simp add: shape0_def)
  finally show ?thesis .
qed

subsection \<open>Steady-state temperature profile\<close>

text \<open>
  C1, as stated: for more than 2 time steps and more than 2 groups, \<open>temp_ave\<close> is the
  mean over exactly the second half of the time-step axis, first column left out. It
  fails on 4 time steps and 3 groups: the second half is rows 2 and 3, and the slice
  \<open>T[int(4/2)+1:, 1:]\<close> holds row 3 alone.
\<close>

theorem temp_ave_second_half_counterexample:
  "wf_ndarray2 \<lparr>rows = [[0, 1, 1], [0, 2, 2], [0, 2, 2], [0, 4, 4]], ncols = 3\<rparr> \<and>
   2 < shape0 \<lparr>rows = [[0, 1, 1], [0, 2, 2], [0, 2, 2], [0, 4, 4]], ncols = 3\<rparr> \<and>
   2 < ncols \<lparr>rows = [[0, 1, 1], [0, 2, 2], [0, 2, 2], [0, 4, 4]], ncols = 3\<rparr> \<and>
   temp_ave \<lparr>rows = [[0, 1, 1], [0, 2, 2], [0, 2, 2], [0, 4, 4]], ncols = 3\<rparr> = [Fin 4, Fin 4] \<and>
   spec_second_half_mean \<lparr>rows = [[0, 1, 1], [0, 2, 2], [0, 2, 2], [0, 4, 4]], ncols = 3\<rparr>
     = [Fin 3, Fin 3] \<and>
   temp_ave \<lparr>rows = [[0, 1, 1], [0, 2, 2], [0, 2, 2], [0, 4, 4]], ncols = 3\<rparr> \<noteq>
   spec_second_half_mean \<lparr>rows = [[0, 1, 1], [0, 2, 2], [0, 2, 2], [0, 4, 4]], ncols = 3\<rparr>"
  by code_simp

text \<open>
  C1, amended: for more than 2 time steps and more than 2 groups, \<open>temp_ave\<close> has one
  value per group but the first, and the value of a retained group is the mean of its
  column over the rows after the midpoint index \<open>int(ndata/2)\<close>, that is the rows
  \<open>int(ndata/2)+1, ..., ndata-1\<close>.
\<close>

theorem temp_ave_rows_after_midpoint:
  "wf_ndarray2 T \<Longrightarrow> 2 < shape0 T \<Longrightarrow> 2 < ncols T \<Longrightarrow>
   length (temp_ave T) = ncols T - 1 \<and>
   (\<forall>j < ncols T - 1. temp_ave T ! j =
      Fin ((\<Sum>i = shape0 T div 2 + 1..<shape0 T. rows T ! i ! (j + 1)) /
           real (shape0 T - (shape0 T div 2 + 1))))"
  by (simp add: temp_ave_length temp_ave_nth)

theorem temp_ave_rows_after_midpoint_witness:
  "wf_ndarray2 \<lparr>rows = [[0, 1, 1], [0, 2, 2], [0, 2, 2], [0, 4, 4]], ncols = 3\<rparr> \<and>
   2 < shape0 \<lparr>rows = [[0, 1, 1], [0, 2, 2], [0, 2, 2], [0, 4, 4]], ncols = 3\<rparr> \<and>
   2 < ncols \<lparr>rows = [[0, 1, 1], [0, 2, 2], [0, 2, 2], [0, 4, 4]], ncols = 3\<rparr> \<and>
   length (temp_ave \<lparr>rows = [[0, 1, 1], [0, 2, 2], [0, 2, 2], [0, 4, 4]], ncols = 3\<rparr>) = 2 \<and>
   temp_ave \<lparr>rows = [[0, 1, 1], [0, 2, 2], [0, 2, 2], [0, 4, 4]], ncols = 3\<rparr> ! 0 = Fin (4 / 1)"
proof -
  let ?T = "\<lparr>rows = [[0, 1, 1], [0, 2, 2], [0, 2, 2], [0, 4, 4 :: real]], ncols = 3\<rparr>"
  have h1: "wf_ndarray2 ?T" by (simp add: wf_ndarray2_def)
  have h2: "2 < shape0 ?T" by (simp add: shape0_def)
  have h3: "2 < ncols ?T" by simp
  have s: "shape0 ?T = 4" by (simp add: shape0_def)
  have "{3..<4::nat} = {3}" by auto
  then show ?thesis
    using h1 h2 h3 temp_ave_rows_after_midpoint [OF h1 h2 h3] by (simp add: s)
qed

subsection \<open>Undersized input\<close>

text \<open>
  C8. For a temperature array with fewer than 2 time steps the reduction step averages
  over an empty slice: no error is raised (\<open>temp_ave\<close> has no error result), and the
  value of every retained group is NaN.
\<close>

theorem temp_ave_undersized_nan:
  "shape0 T < 2 \<Longrightarrow> temp_ave T = replicate (ncols T - 1) NaN"
proof -
  assume "shape0 T < 2"
  then have "drop (shape0 T div 2 + 1) (rows T) = []"
    by (simp add: shape0_def)
  then have "temp_ave T = map (\<lambda>j. NaN) [0..<ncols T - 1]"
    by (simp add: temp_ave_def mean_axis0_def slice_from_def mean_Nil)
  then show ?thesis
    by (simp add: map_replicate_const)
qed

theorem temp_ave_undersized_nan_witness:
  "shape0 \<lparr>rows = [[300, 310, 290]], ncols = 3\<rparr> < 2 \<and>
   temp_ave \<lparr>rows = [[300, 310, 290]], ncols = 3\<rparr> = [NaN, NaN]"
  using temp_ave_undersized_nan [of "\<lparr>rows = [[300, 310, 290]], ncols = 3\<rparr>"]
  by (simp add: shape0_def numeral_2_eq_2)

subsection \<open>Heat flux\<close>

lemma getitem_map: "getitem (map f xs) i = map_sum id f (getitem xs i)"
  by (auto simp: getitem_def)

lemma mean_pair_same: "mean [a, a] = a"
  by (cases a) (simp_all add: mean_def inf_of_def)

lemma fsub_Fin: "fsub (Fin a) (Fin b) = Fin (a - b)"
  by (simp add: fsub_def)

lemma fdiv_twice_num: "fdiv (fmul (Fin 2) x) (Fin h) = fmul (Fin 2) (fdiv x (Fin h))"
  by (cases x) (auto simp: inf_of_def)

lemma fdiv_twice_both: "fdiv (fmul (Fin 2) x) (Fin (2 * h)) = fdiv x (Fin h)"
  by (cases x) (auto simp: inf_of_def)

lemma rate_double_tstep:
  "fdiv (fdiv (fdiv (fsub (Fin (2 * a)) (Fin (2 * b))) (Fin h)) (Fin (2 * ts))) (Fin iv) =
   fdiv (fdiv (fdiv (fsub (Fin a) (Fin b)) (Fin h)) (Fin ts)) (Fin iv)"
proof -
  let ?d = "fsub (Fin a) (Fin b)"
  have "fsub (Fin (2 * a)) (Fin (2 * b)) = fmul (Fin 2) ?d"
    by (simp add: fsub_Fin)
  then have "fdiv (fsub (Fin (2 * a)) (Fin (2 * b))) (Fin h) = fmul (Fin 2) (fdiv ?d (Fin h))"
    by (simp only: fdiv_twice_num)
  then have "fdiv (fdiv (fsub (Fin (2 * a)) (Fin (2 * b))) (Fin h)) (Fin (2 * ts)) =
             fdiv (fdiv ?d (Fin h)) (Fin ts)"
    by (simp only: fdiv_twice_both)
  then show ?thesis
    by (rule arg_cong)
qed

lemma rate_double_interval:
  "fdiv (fdiv (fdiv (fsub (Fin (2 * a)) (Fin (2 * b))) (Fin h)) (Fin ts)) (Fin (2 * iv)) =
   fdiv (fdiv (fdiv (fsub (Fin a) (Fin b)) (Fin h)) (Fin ts)) (Fin iv)"
proof -
  let ?d = "fsub (Fin a) (Fin b)"
  have "fsub (Fin (2 * a)) (Fin (2 * b)) = fmul (Fin 2) ?d"
    by (simp add: fsub_Fin)
  then have "fdiv (fsub (Fin (2 * a)) (Fin (2 * b))) (Fin h) = fmul (Fin 2) (fdiv ?d (Fin h))"
    by (simp only: fdiv_twice_num)
  then have "fdiv (fdiv (fsub (Fin (2 * a)) (Fin (2 * b))) (Fin h)) (Fin ts) =
             fmul (Fin 2) (fdiv (fdiv ?d (Fin h)) (Fin ts))"
    by (simp only: fdiv_twice_num)
  then show ?thesis
    by (simp only: fdiv_twice_both)
qed

lemma heat_flux_Q_is_Q1: "heat_flux ts iv n Ein Eout = Inr f \<Longrightarrow> Q f = Q1 f"
  by (auto simp: heat_flux_def mean_pair_same Let_def split: sum.splits)

text \<open>
  C2. The flux \<open>Q\<close> is the arithmetic mean of the two estimators \<open>Q1\<close> (inbound) and
  \<open>Q2\<close> (outbound). The script computes both and then averages \<open>Q1\<close> with itself: on
  a run of 4 samples with constant inbound energy and an outbound energy that rises by 2
  over the second half, \<open>Q1 = 0\<close>, \<open>Q2 = 1\<close>, their mean is \<open>1/2\<close>, and \<open>Q = 0\<close>.
\<close>

theorem heat_flux_self_average:
  "heat_flux dt Ns 4 [0, 0, 0, 0] [0, 0, 0, 2] = Inr \<lparr>Q1 = Fin 0, Q2 = Fin 1, Q = Fin 0\<rparr> \<and>
   mean [Fin 0, Fin 1] = Fin (1 / 2)"
  by code_simp

text \<open>
  C7. Doubling every inbound and outbound energy value and doubling the elapsed time, by
  the time-step duration or by the sampling interval, leaves the result of the flux
  computation unchanged: the same error or the same \<open>Q1\<close>, \<open>Q2\<close> and \<open>Q\<close>.
\<close>

theorem heat_flux_scale_invariant:
  "heat_flux (2 * ts) iv n (map ((*) 2) Ein) (map ((*) 2) Eout) = heat_flux ts iv n Ein Eout \<and>
   heat_flux ts (2 * iv) n (map ((*) 2) Ein) (map ((*) 2) Eout) = heat_flux ts iv n Ein Eout"
  by (simp add: heat_flux_def getitem_map rate_double_tstep rate_double_interval
      split: sum.splits)

subsection \<open>Thermal conductance\<close>

lemma conductance_scale:
  "0 < k \<Longrightarrow> conductance q d (k * a) = fdiv (conductance q d a) (Fin k)"
  by (cases "fdiv (fmul (Fin (16 / 10 * 10 ^ 5)) q) d")
     (auto simp: conductance_def inf_of_def zero_le_mult_iff mult_le_0_iff)

lemma deltaT_nonempty: "ta \<noteq> [] \<Longrightarrow> deltaT ta = Inr (fsub (hd ta) (last ta))"
  by (cases ta rule: rev_cases) (auto simp: deltaT_def getitem_def hd_conv_nth nth_append last_conv_nth)

text \<open>
  C3. The conductance is the constant \<open>1.6 * 10^5\<close> times the flux, divided by the
  difference between the first and the last retained group temperature, divided by the
  area \<open>l[0] * l[1]\<close>; for a factor \<open>k > 0\<close>, the area scaled by \<open>k\<close> gives the
  conductance divided by \<open>k\<close>, at the same flux and temperature difference.
\<close>

theorem conductance_formula_and_area_scaling:
  "ta \<noteq> [] \<Longrightarrow> 0 < k \<Longrightarrow>
   thermal_conductance ta q =
     Inr (fdiv (fdiv (fmul (Fin 160000) q) (fsub (hd ta) (last ta))) (Fin (l ! 0 * l ! 1))) \<and>
   G q d = conductance q d (l ! 0 * l ! 1) \<and>
   conductance q d (k * a) = fdiv (conductance q d a) (Fin k)"
  by (simp add: thermal_conductance_def deltaT_nonempty G_def A_def conductance_scale)
     (simp add: conductance_def)

theorem conductance_formula_and_area_scaling_witness:
  "[Fin 310, Fin 305, Fin 300] \<noteq> [] \<and> (0 :: real) < 2 \<and>
   thermal_conductance [Fin 310, Fin 305, Fin 300] (Fin 3) =
     Inr (Fin (160000 * 3 / 10 / (l ! 0 * l ! 1))) \<and>
   conductance (Fin 3) (Fin 10) (2 * 5) = fdiv (conductance (Fin 3) (Fin 10) 5) (Fin 2)"
proof -
  have h1: "[Fin 310, Fin 305, Fin 300] \<noteq> []" by simp
  have h2: "(0 :: real) < 2" by simp
  have nz: "l ! 0 * l ! 1 \<noteq> 0" by (simp add: l_def)
  from conductance_formula_and_area_scaling [OF h1 h2, of "Fin 3" "Fin 10" 5]
  show ?thesis using nz by (simp add: fsub_def)
qed

subsection \<open>Spectral step\<close>

lemma np_add_same_length:
  "length xs = length ys \<Longrightarrow> np_add xs ys = Inr (map (\<lambda>i. xs ! i + ys ! i) [0..<length xs])"
  by (simp add: np_add_def) (rule nth_equalityI, auto)

lemma Ly_nonzero: "Ly \<noteq> 0"
  by (simp add: Ly_def)

lemma V_nonzero: "V \<noteq> 0"
  by (simp add: V_def Lx_def Ly_def Lz_def l_def)

text \<open>
  C4. On arrays of equal length, the correlation-time curve is the elementwise sum
  \<open>Ki + Ko\<close> divided by the cell width \<open>Ly\<close>, and the spectral conductance curve is
  \<open>1.6 * 10^4\<close> times the elementwise sum \<open>jwi + jwo\<close>, divided by the volume \<open>V\<close> and
  by the temperature difference. \<open>V\<close> is \<open>l[0] * Ly * l[2]\<close> with the literal \<open>Ly\<close>,
  which is not the cell length \<open>l[1]\<close> of the area \<open>A = l[0] * l[1]\<close>.
\<close>

theorem spectral_curves:
  "length (Ki s) = length (Ko s) \<Longrightarrow> length (jwi s) = length (jwo s) \<Longrightarrow>
   corr_time s = Inr (map (\<lambda>i. Fin ((Ki s ! i + Ko s ! i) / Ly)) [0..<length (Ki s)]) \<and>
   Gc d s = Inr (map (\<lambda>i. fdiv (Fin (16000 * (jwi s ! i + jwo s ! i) / V)) d)
                   [0..<length (jwi s)]) \<and>
   V = l ! 0 * Ly * l ! 2 \<and> A = l ! 0 * l ! 1 \<and> Ly \<noteq> l ! 1"
proof -
  assume k: "length (Ki s) = length (Ko s)" and j: "length (jwi s) = length (jwo s)"
  have c: "corr_time s = Inr (map (\<lambda>i. Fin ((Ki s ! i + Ko s ! i) / Ly)) [0..<length (Ki s)])"
    by (simp add: corr_time_def np_add_same_length [OF k] Ly_nonzero)
  have g: "Gc d s = Inr (map (\<lambda>i. fdiv (Fin (16000 * (jwi s ! i + jwo s ! i) / V)) d)
                   [0..<length (jwi s)])"
    by (simp add: Gc_def np_add_same_length [OF j] V_nonzero)
  have v: "V = l ! 0 * Ly * l ! 2"
    by (simp add: V_def Lx_def Lz_def)
  have a: "A = l ! 0 * l ! 1"
    by (simp add: A_def)
  have "Ly \<noteq> l ! 1"
    by (simp add: Ly_def l_def)
  with c g v a show ?thesis by blast
qed

theorem spectral_curves_witness:
  "length (Ki \<lparr>jwi = [1, 2], jwo = [3, 4], Ki = [1, 2], Ko = [1, 2], shc_t = [0, 1], shc_nu = [0, 1]\<rparr>) =
   length (Ko \<lparr>jwi = [1, 2], jwo = [3, 4], Ki = [1, 2], Ko = [1, 2], shc_t = [0, 1], shc_nu = [0, 1]\<rparr>) \<and>
   length (jwi \<lparr>jwi = [1, 2], jwo = [3, 4], Ki = [1, 2], Ko = [1, 2], shc_t = [0, 1], shc_nu = [0, 1]\<rparr>) =
   length (jwo \<lparr>jwi = [1, 2], jwo = [3, 4], Ki = [1, 2], Ko = [1, 2], shc_t = [0, 1], shc_nu = [0, 1]\<rparr>) \<and>
   corr_time \<lparr>jwi = [1, 2], jwo = [3, 4], Ki = [1, 2], Ko = [1, 2], shc_t = [0, 1], shc_nu = [0, 1]\<rparr> =
     Inr [Fin (2 / Ly), Fin (4 / Ly)] \<and>
   Gc (Fin 2) \<lparr>jwi = [1, 2], jwo = [3, 4], Ki = [1, 2], Ko = [1, 2], shc_t = [0, 1], shc_nu = [0, 1]\<rparr> =
     Inr [Fin (16000 * 4 / V / 2), Fin (16000 * 6 / V / 2)]"
  using spectral_curves [of "\<lparr>jwi = [1, 2], jwo = [3, 4], Ki = [1, 2], Ko = [1, 2], shc_t = [0, 1], shc_nu = [0, 1]\<rparr>" "Fin 2"]
  by (simp add: upt_rec [of 0] upt_rec [of 1])

text \<open>
  C6. When all arrays of the spectral series have the same length, the correlation-time
  array and the spectral-conductance array are produced, and each has the length of the
  time and frequency axes of the series.
\<close>

theorem spectral_lengths:
  "length (jwi s) = n \<Longrightarrow> length (jwo s) = n \<Longrightarrow> length (Ki s) = n \<Longrightarrow> length (Ko s) = n \<Longrightarrow>
   length (shc_t s) = n \<Longrightarrow> length (shc_nu s) = n \<Longrightarrow>
   (\<exists>c g. corr_time s = Inr c \<and> length c = length (shc_t s) \<and>
          Gc d s = Inr g \<and> length g = length (shc_nu s))"
  by (simp add: corr_time_def Gc_def np_add_def)

theorem spectral_lengths_witness:
  "length (jwi \<lparr>jwi = [1, 2], jwo = [3, 4], Ki = [5, 6], Ko = [7, 8], shc_t = [0, 1], shc_nu = [0, 9]\<rparr>) = 2 \<and>
   length (jwo \<lparr>jwi = [1, 2], jwo = [3, 4], Ki = [5, 6], Ko = [7, 8], shc_t = [0, 1], shc_nu = [0, 9]\<rparr>) = 2 \<and>
   length (Ki \<lparr>jwi = [1, 2], jwo = [3, 4], Ki = [5, 6], Ko = [7, 8], shc_t = [0, 1], shc_nu = [0, 9]\<rparr>) = 2 \<and>
   length (Ko \<lparr>jwi = [1, 2], jwo = [3, 4], Ki = [5, 6], Ko = [7, 8], shc_t = [0, 1], shc_nu = [0, 9]\<rparr>) = 2 \<and>
   length (shc_t \<lparr>jwi = [1, 2], jwo = [3, 4], Ki = [5, 6], Ko = [7, 8], shc_t = [0, 1], shc_nu = [0, 9]\<rparr>) = 2 \<and>
   length (shc_nu \<lparr>jwi = [1, 2], jwo = [3, 4], Ki = [5, 6], Ko = [7, 8], shc_t = [0, 1], shc_nu = [0, 9]\<rparr>) = 2 \<and>
   (\<exists>c g. corr_time \<lparr>jwi = [1, 2], jwo = [3, 4], Ki = [5, 6], Ko = [7, 8], shc_t = [0, 1], shc_nu = [0, 9]\<rparr> = Inr c \<and>
          length c = length (shc_t \<lparr>jwi = [1, 2], jwo = [3, 4], Ki = [5, 6], Ko = [7, 8], shc_t = [0, 1], shc_nu = [0, 9]\<rparr>) \<and>
          Gc (Fin 1) \<lparr>jwi = [1, 2], jwo = [3, 4], Ki = [5, 6], Ko = [7, 8], shc_t = [0, 1], shc_nu = [0, 9]\<rparr> = Inr g \<and>
          length g = length (shc_nu \<lparr>jwi = [1, 2], jwo = [3, 4], Ki = [5, 6], Ko = [7, 8], shc_t = [0, 1], shc_nu = [0, 9]\<rparr>))"
proof -
  let ?s = "\<lparr>jwi = [1, 2], jwo = [3, 4], Ki = [5, 6], Ko = [7, 8], shc_t = [0, 1], shc_nu = [0, 9 :: real]\<rparr>"
  have h1: "length (jwi ?s) = 2" and h2: "length (jwo ?s) = 2" and h3: "length (Ki ?s) = 2"
    and h4: "length (Ko ?s) = 2" and h5: "length (shc_t ?s) = 2" and h6: "length (shc_nu ?s) = 2"
    by simp_all
  from spectral_lengths [OF h1 h2 h3 h4 h5 h6, of "Fin 1"] h1 h2 h3 h4 h5 h6
  show ?thesis by blast
qed

subsection \<open>Output writers\<close>

lemma temp_rows_all:
  "\<forall>i \<in> set ixs. i < length gi \<and> i < length ta \<Longrightarrow>
   temp_rows fmt gi ta ixs out =
     (out @ concat (map (\<lambda>i. str_nat (gi ! i) @ '' '' @ fmt (ta ! i) @ [newline]) ixs), None)"
  by (induction ixs arbitrary: out) (simp_all add: getitem_def)

lemma temp_rows_stop:
  "\<forall>i \<in> set ixs. i < length gi \<and> i < length ta \<Longrightarrow> j < length gi \<Longrightarrow> length ta \<le> j \<Longrightarrow>
   temp_rows fmt gi ta (ixs @ j # rest) out =
     (out @ concat (map (\<lambda>i. str_nat (gi ! i) @ '' '' @ fmt (ta ! i) @ [newline]) ixs),
      Some IndexError)"
  by (induction ixs arbitrary: out) (simp_all add: getitem_def)

lemma group_idx_length: "length group_idx = 9"
  by (simp add: group_idx_def)

lemma group_idx_nth: "i < 9 \<Longrightarrow> group_idx ! i = i + 1"
  by (simp add: group_idx_def)

lemma str_nat_digits: "set (str_nat n) \<subseteq> set ''0123456789''"
proof (induction n rule: str_nat.induct)
  case (1 n)
  have d: "\<And>k. k < 10 \<Longrightarrow> ''0123456789'' ! k \<in> set ''0123456789''"
    by (rule nth_mem) simp
  show ?case
  proof (cases "n < 10")
    case True
    then show ?thesis
      using d [of n] by (subst str_nat.simps) simp
  next
    case False
    have "n mod 10 < 10" by simp
    then have "''0123456789'' ! (n mod 10) \<in> set ''0123456789''" by (rule d)
    with False 1 show ?thesis
      by (subst str_nat.simps) simp
  qed
qed

lemma str_nat_no_newline: "newline \<notin> set (str_nat n)"
  using str_nat_digits [of n] by (auto simp: newline_def)

lemma count_newline_rows:
  "\<forall>v. newline \<notin> set (fmt v) \<Longrightarrow>
   count_list (concat (map (\<lambda>i. str_nat (f i) @ '' '' @ fmt (g i) @ [newline]) ixs)) newline
     = length ixs"
proof (induction ixs)
  case Nil
  then show ?case by simp
next
  case (Cons i ixs)
  have a: "count_list (str_nat (f i)) newline = 0"
    using str_nat_no_newline by (simp add: count_list_0_iff)
  have b: "count_list (fmt (g i)) newline = 0"
    using Cons.prems by (simp add: count_list_0_iff)
  have c: "CHR '' '' \<noteq> newline"
    by (simp add: newline_def)
  from Cons a b c show ?case by simp
qed

text \<open>
  C10. The TempProfile writer runs over the fixed indices 1 to 9. With at least 10 group
  columns it writes the 9 rows of the first 9 retained groups and no more (9 line ends,
  when a formatted number holds none), without error. With fewer than 10 columns the read
  of \<open>temp_ave\<close> goes out of range: the writer stops with IndexError, and the file keeps
  the rows written before, one per retained group.
\<close>

theorem TempProfile_writer_nine_rows:
  "(10 \<le> ncols T \<longrightarrow>
      TempProfile_writer fmt (temp_ave T) =
        (concat (map (\<lambda>i. str_nat (i + 1) @ '' '' @ fmt (temp_ave T ! i) @ [newline]) [0..<9]),
         None) \<and>
      ((\<forall>v. newline \<notin> set (fmt v)) \<longrightarrow>
         count_list (fst (TempProfile_writer fmt (temp_ave T))) newline = 9)) \<and>
   (ncols T < 10 \<longrightarrow>
      TempProfile_writer fmt (temp_ave T) =
        (concat (map (\<lambda>i. str_nat (i + 1) @ '' '' @ fmt (temp_ave T ! i) @ [newline])
           [0..<ncols T - 1]),
         Some IndexError))"
proof (intro conjI impI)
  assume wide: "10 \<le> ncols T"
  then have ok: "\<forall>i \<in> set [0..<9]. i < length group_idx \<and> i < length (temp_ave T)"
    by (auto simp: group_idx_length temp_ave_length)
  have "TempProfile_writer fmt (temp_ave T) =
    (concat (map (\<lambda>i. str_nat (group_idx ! i) @ '' '' @ fmt (temp_ave T ! i) @ [newline]) [0..<9]),
     None)"
    unfolding TempProfile_writer_def group_idx_length
    using temp_rows_all [OF ok, of fmt "[]"] by simp
  also have "map (\<lambda>i. str_nat (group_idx ! i) @ '' '' @ fmt (temp_ave T ! i) @ [newline]) [0..<9]
    = map (\<lambda>i. str_nat (i + 1) @ '' '' @ fmt (temp_ave T ! i) @ [newline]) [0..<9]"
    by (rule map_cong) (simp_all add: group_idx_nth)
  finally show w: "TempProfile_writer fmt (temp_ave T) =
    (concat (map (\<lambda>i. str_nat (i + 1) @ '' '' @ fmt (temp_ave T ! i) @ [newline]) [0..<9]),
     None)" .
  assume "\<forall>v. newline \<notin> set (fmt v)"
  then show "count_list (fst (TempProfile_writer fmt (temp_ave T))) newline = 9"
    using count_newline_rows [of fmt "\<lambda>i. i + 1" "\<lambda>i. temp_ave T ! i" "[0..<9]"]
    by (simp add: w)
next
  assume narrow: "ncols T < 10"
  let ?n = "ncols T - 1"
  have n: "?n < 9" using narrow by simp
  have split: "[0..<9] = [0..<?n] @ ?n # [Suc ?n..<9]"
    using n by (metis less_imp_le_nat upt_add_eq_append upt_conv_Cons zero_le le_add_diff_inverse add_0)
  have ok: "\<forall>i \<in> set [0..<?n]. i < length group_idx \<and> i < length (temp_ave T)"
    using n by (auto simp: group_idx_length temp_ave_length)
  have "TempProfile_writer fmt (temp_ave T) =
    (concat (map (\<lambda>i. str_nat (group_idx ! i) @ '' '' @ fmt (temp_ave T ! i) @ [newline]) [0..<?n]),
     Some IndexError)"
    unfolding TempProfile_writer_def group_idx_length split
    using temp_rows_stop [OF ok, of ?n fmt "[Suc ?n..<9]" "[]"] n
    by (simp add: group_idx_length temp_ave_length)
  also have "map (\<lambda>i. str_nat (group_idx ! i) @ '' '' @ fmt (temp_ave T ! i) @ [newline]) [0..<?n]
    = map (\<lambda>i. str_nat (i + 1) @ '' '' @ fmt (temp_ave T ! i) @ [newline]) [0..<?n]"
    using n by (intro map_cong) (simp_all add: group_idx_nth)
  finally show "TempProfile_writer fmt (temp_ave T) =
    (concat (map (\<lambda>i. str_nat (i + 1) @ '' '' @ fmt (temp_ave T ! i) @ [newline]) [0..<?n]),
     Some IndexError)" .
qed

theorem TempProfile_writer_nine_rows_witness:
  "10 \<le> ncols \<lparr>rows = [[0, 1, 2, 3, 4, 5, 6, 7, 8, 9, 10]], ncols = 11\<rparr> \<and>
   (\<forall>v. newline \<notin> set ((\<lambda>_. ''nan'') v)) \<and>
   TempProfile_writer (\<lambda>_. ''nan'')
       (temp_ave \<lparr>rows = [[0, 1, 2, 3, 4, 5, 6, 7, 8, 9, 10]], ncols = 11\<rparr>) =
     (''1 nan'' @ [newline] @ ''2 nan'' @ [newline] @ ''3 nan'' @ [newline] @
      ''4 nan'' @ [newline] @ ''5 nan'' @ [newline] @ ''6 nan'' @ [newline] @
      ''7 nan'' @ [newline] @ ''8 nan'' @ [newline] @ ''9 nan'' @ [newline], None) \<and>
   count_list (fst (TempProfile_writer (\<lambda>_. ''nan'')
       (temp_ave \<lparr>rows = [[0, 1, 2, 3, 4, 5, 6, 7, 8, 9, 10]], ncols = 11\<rparr>))) newline = 9 \<and>
   ncols \<lparr>rows = [[0, 1, 2]], ncols = 3\<rparr> < 10 \<and>
   TempProfile_writer (\<lambda>_. ''nan'') (temp_ave \<lparr>rows = [[0, 1, 2]], ncols = 3\<rparr>) =
     (''1 nan'' @ [newline] @ ''2 nan'' @ [newline], Some IndexError)"
proof -
  let ?wide = "\<lparr>rows = [[0, 1, 2, 3, 4, 5, 6, 7, 8, 9, 10 :: real]], ncols = 11\<rparr>"
  let ?narrow = "\<lparr>rows = [[0, 1, 2 :: real]], ncols = 3\<rparr>"
  let ?f = "\<lambda>_ :: f64. ''nan''"
  have h1: "10 \<le> ncols ?wide" by simp
  have h2: "\<forall>v. newline \<notin> set (?f v)" by (simp add: newline_def)
  have h3: "ncols ?narrow < 10" by simp
  have d: "str_nat 1 = ''1''" "str_nat 2 = ''2''" "str_nat 3 = ''3''" "str_nat 4 = ''4''"
    "str_nat 5 = ''5''" "str_nat 6 = ''6''" "str_nat 7 = ''7''" "str_nat 8 = ''8''"
    "str_nat 9 = ''9''" "str_nat (Suc 0) = ''1''" "str_nat (Suc (Suc 0)) = ''2''"
    by code_simp+
  have u9: "[0..<9] = [0, 1, 2, 3, 4, 5, 6, 7, 8]" by code_simp
  have u2: "[0..<2] = [0, 1]" by code_simp
  from TempProfile_writer_nine_rows [of ?wide ?f] h1 h2
  have w: "TempProfile_writer ?f (temp_ave ?wide) =
        (concat (map (\<lambda>i. str_nat (i + 1) @ '' '' @ ?f (temp_ave ?wide ! i) @ [newline]) [0..<9]),
         None)"
    and c: "count_list (fst (TempProfile_writer ?f (temp_ave ?wide))) newline = 9"
    by blast+
  from TempProfile_writer_nine_rows [of ?narrow ?f] h3
  have n: "TempProfile_writer ?f (temp_ave ?narrow) =
        (concat (map (\<lambda>i. str_nat (i + 1) @ '' '' @ ?f (temp_ave ?narrow ! i) @ [newline])
           [0..<ncols ?narrow - 1]), Some IndexError)"
    by blast
  have w': "TempProfile_writer ?f (temp_ave ?wide) =
     (''1 nan'' @ [newline] @ ''2 nan'' @ [newline] @ ''3 nan'' @ [newline] @
      ''4 nan'' @ [newline] @ ''5 nan'' @ [newline] @ ''6 nan'' @ [newline] @
      ''7 nan'' @ [newline] @ ''8 nan'' @ [newline] @ ''9 nan'' @ [newline], None)"
    unfolding w u9 by (simp add: d)
  have n': "TempProfile_writer ?f (temp_ave ?narrow) =
     (''1 nan'' @ [newline] @ ''2 nan'' @ [newline], Some IndexError)"
    unfolding n by (simp add: u2 d)
  from h1 h2 h3 w' c n' show ?thesis by blast
qed

text \<open>
  C5. The EnergyAccumulation file is one header line followed by one line per time
  sample. The script writes the header without a line end, so that the first sample
  follows it on the same line: for a run of one sample the file is a single line.
\<close>

theorem EnergyAccumulation_header_not_terminated:
  "EnergyAccumulation_writer fmt 1 [1] [2] =
     (''t(ps)  Energy-in(Ein)  Energy-out(Eout)'' @
      fmt (Fin (1 / 1000)) @ '' '' @ fmt (Fin 1) @ '' '' @ fmt (Fin 2) @ [newline], None)"
  by (simp add: EnergyAccumulation_writer_def t_axis_def getitem_def dt_def Ns_def)

end
